theory Spec2Isabelle
  imports Complex_Main
begin

section \<open>JavaScript numbers\<close>

text \<open>
  The downloader computes with JavaScript numbers. A number is modelled as an exact
  rational, or one of the three non-finite values that division by zero produces.
  The arithmetic below follows IEEE 754 on these values; it is exact, which agrees with
  the double-precision result for the integers below \<open>2^53\<close> that byte counts,
  offsets and millisecond clocks are. A quotient that is not an integer is kept exact
  where the code rounds it to the nearest double: the planner floors, ceils or compares
  its quotients, and the percentages and speeds stated below are whole numbers. The sign
  of zero is not modelled.
\<close>

datatype jsnum = Num rat | PInf | NInf | NaN

fun js_neg :: "jsnum \<Rightarrow> jsnum" where
  "js_neg (Num a) = Num (- a)"
| "js_neg PInf = NInf"
| "js_neg NInf = PInf"
| "js_neg NaN = NaN"

fun js_add :: "jsnum \<Rightarrow> jsnum \<Rightarrow> jsnum" where
  "js_add (Num a) (Num b) = Num (a + b)"
| "js_add NaN _ = NaN"
| "js_add _ NaN = NaN"
| "js_add PInf NInf = NaN"
| "js_add NInf PInf = NaN"
| "js_add PInf _ = PInf"
| "js_add NInf _ = NInf"
| "js_add _ PInf = PInf"
| "js_add _ NInf = NInf"

definition js_sub :: "jsnum \<Rightarrow> jsnum \<Rightarrow> jsnum" where
  "js_sub a b = js_add a (js_neg b)"

fun js_mul :: "jsnum \<Rightarrow> jsnum \<Rightarrow> jsnum" where
  "js_mul (Num a) (Num b) = Num (a * b)"
| "js_mul NaN _ = NaN"
| "js_mul _ NaN = NaN"
| "js_mul (Num a) PInf = (if a = 0 then NaN else if 0 < a then PInf else NInf)"
| "js_mul (Num a) NInf = (if a = 0 then NaN else if 0 < a then NInf else PInf)"
| "js_mul PInf (Num b) = (if b = 0 then NaN else if 0 < b then PInf else NInf)"
| "js_mul NInf (Num b) = (if b = 0 then NaN else if 0 < b then NInf else PInf)"
| "js_mul PInf PInf = PInf"
| "js_mul NInf NInf = PInf"
| "js_mul PInf NInf = NInf"
| "js_mul NInf PInf = NInf"

fun js_div :: "jsnum \<Rightarrow> jsnum \<Rightarrow> jsnum" where
  "js_div (Num a) (Num b) =
     (if b = 0 then (if a = 0 then NaN else if 0 < a then PInf else NInf)
      else Num (a / b))"
| "js_div NaN _ = NaN"
| "js_div _ NaN = NaN"
| "js_div (Num a) PInf = Num 0"
| "js_div (Num a) NInf = Num 0"
| "js_div PInf (Num b) = (if 0 \<le> b then PInf else NInf)"
| "js_div NInf (Num b) = (if 0 \<le> b then NInf else PInf)"
| "js_div PInf PInf = NaN"
| "js_div PInf NInf = NaN"
| "js_div NInf PInf = NaN"
| "js_div NInf NInf = NaN"

text \<open>The remainder operator \<open>%\<close>: the result has the sign of the dividend.\<close>

fun js_mod :: "jsnum \<Rightarrow> jsnum \<Rightarrow> jsnum" where
  "js_mod (Num a) (Num b) =
     (if b = 0 then NaN
      else Num (a - b * of_int (if 0 \<le> a / b then \<lfloor>a / b\<rfloor> else \<lceil>a / b\<rceil>)))"
| "js_mod (Num a) PInf = Num a"
| "js_mod (Num a) NInf = Num a"
| "js_mod _ _ = NaN"

fun js_floor :: "jsnum \<Rightarrow> jsnum" where
  "js_floor (Num a) = Num (of_int \<lfloor>a\<rfloor>)"
| "js_floor x = x"

fun js_ceil :: "jsnum \<Rightarrow> jsnum" where
  "js_ceil (Num a) = Num (of_int \<lceil>a\<rceil>)"
| "js_ceil x = x"

fun js_min :: "jsnum \<Rightarrow> jsnum \<Rightarrow> jsnum" where
  "js_min (Num a) (Num b) = Num (min a b)"
| "js_min NaN _ = NaN"
| "js_min _ NaN = NaN"
| "js_min NInf _ = NInf"
| "js_min _ NInf = NInf"
| "js_min PInf b = b"
| "js_min a PInf = a"

text \<open>The comparison \<open><\<close>: false as soon as one side is NaN.\<close>

fun js_lt :: "jsnum \<Rightarrow> jsnum \<Rightarrow> bool" where
  "js_lt (Num a) (Num b) = (a < b)"
| "js_lt NaN _ = False"
| "js_lt _ NaN = False"
| "js_lt NInf NInf = False"
| "js_lt NInf _ = True"
| "js_lt _ NInf = False"
| "js_lt PInf _ = False"
| "js_lt _ PInf = True"

definition js_gt :: "jsnum \<Rightarrow> jsnum \<Rightarrow> bool" where
  "js_gt a b = js_lt b a"

text \<open>Strict equality \<open>===\<close> on numbers: NaN equals nothing, not even itself.\<close>

definition js_eq :: "jsnum \<Rightarrow> jsnum \<Rightarrow> bool" where
  "js_eq a b = (a \<noteq> NaN \<and> a = b)"

text \<open>Truthiness of a number: zero and NaN are falsy.\<close>

fun js_truthy :: "jsnum \<Rightarrow> bool" where
  "js_truthy (Num a) = (a \<noteq> 0)"
| "js_truthy NaN = False"
| "js_truthy _ = True"

abbreviation js_int :: "int \<Rightarrow> jsnum" where
  "js_int i \<equiv> Num (of_int i)"

abbreviation js_nat :: "nat \<Rightarrow> jsnum" where
  "js_nat n \<equiv> Num (of_nat n)"

datatype error =
    RangeError
  | ChunkTooLarge jsnum jsnum
  | InvalidDestination
  | StartOfDestroyed
  | InfiniteRedirect string
  | NoHeaderData
  | NoLocation nat
  | BadStatus nat
  | TransportError
  | FsError
  | ChunkStatus nat nat
  | ChunkLength jsnum jsnum nat
  | ChunkNot206 nat nat
  | ChunkFailed nat

text \<open>
  \<open>Array(n)\<close> with one numeric argument throws a RangeError ("Invalid array length")
  unless \<open>n\<close> is an integer between 0 and \<open>2^32 - 1\<close>.
\<close>

fun js_Array :: "jsnum \<Rightarrow> error + nat" where
  "js_Array (Num a) =
     (if a = of_int \<lfloor>a\<rfloor> \<and> 0 \<le> a \<and> a < 2 ^ 32 then Inr (nat \<lfloor>a\<rfloor>) else Inl RangeError)"
| "js_Array _ = Inl RangeError"

section \<open>Chunk planner\<close>

text \<open>
  The option \<open>chunkSize\<close> is a number of bytes or a function of the total size
  (the default is \<open>min(size / 10, 10 MiB)\<close>); a function's result is floored.
\<close>

datatype chunk_policy = Fixed jsnum | Computed "jsnum \<Rightarrow> jsnum"

definition default_chunkSize :: "jsnum \<Rightarrow> jsnum" where
  "default_chunkSize sz = js_min (js_div sz (Num 10)) (Num (10 * 1024 * 1024))"

fun resolve_chunkSize :: "chunk_policy \<Rightarrow> jsnum \<Rightarrow> jsnum" where
  "resolve_chunkSize (Computed f) sz = js_floor (f sz)"
| "resolve_chunkSize (Fixed c) sz = c"

text \<open>The first \<open>if\<close> of \<open>_calcRanges\<close>: the pair (chunkSize, extraSize) after it.\<close>

definition shrink :: "jsnum \<Rightarrow> jsnum \<Rightarrow> jsnum \<Rightarrow> jsnum \<times> jsnum" where
  "shrink sz connections chunkSize =
     (if js_lt (js_div sz chunkSize) connections
      then (js_floor (js_div sz connections), js_mod sz connections)
      else (chunkSize, Num 0))"

definition chunk_count :: "jsnum \<Rightarrow> jsnum \<Rightarrow> jsnum \<Rightarrow> jsnum" where
  "chunk_count sz chunkSize extraSize =
     (if js_truthy extraSize then js_floor (js_div sz chunkSize)
      else js_ceil (js_div sz chunkSize))"

text \<open>The body of the first loop: the length given to chunk \<open>i\<close> of \<open>n\<close>.\<close>

definition chunk_len :: "jsnum \<Rightarrow> jsnum \<Rightarrow> jsnum \<Rightarrow> nat \<Rightarrow> nat \<Rightarrow> jsnum" where
  "chunk_len sz chunkSize extraSize n i =
     (let c = (if int i < int n - 1 then chunkSize
               else js_sub (js_sub sz (js_mul (js_int (int n - 1)) chunkSize)) extraSize)
      in if js_lt (js_nat i) extraSize then js_add c (Num 1) else c)"

text \<open>The rebalance of a small tail; \<open>chunks\<close> has length \<open>n\<close>.\<close>

definition rebalance :: "jsnum \<Rightarrow> nat \<Rightarrow> jsnum list \<Rightarrow> jsnum list" where
  "rebalance chunkSize n chunks =
     (if 1 < n \<and> js_lt (chunks ! (n - 1)) (js_div chunkSize (Num 2)) then
        let diff = js_floor (js_sub (js_div chunkSize (Num 2)) (chunks ! (n - 1)));
            chunks1 = chunks[n - 1 := js_add (chunks ! (n - 1)) diff]
        in chunks1[n - 2 := js_sub (chunks1 ! (n - 2)) diff]
      else chunks)"

text \<open>The second loop: lengths to inclusive ranges by running sum.\<close>

fun to_ranges :: "jsnum \<Rightarrow> jsnum list \<Rightarrow> (jsnum \<times> jsnum) list" where
  "to_ranges off [] = []"
| "to_ranges off (chunk # chunks) =
     (off, js_sub (js_add off chunk) (Num 1)) # to_ranges (js_add off chunk) chunks"

text \<open>
  \<open>_calcRanges\<close>: the ranges pushed onto \<open>_ranges\<close>, or the RangeError of
  \<open>Array(n)\<close>.
\<close>

definition calcRanges :: "jsnum \<Rightarrow> jsnum \<Rightarrow> chunk_policy \<Rightarrow> error + (jsnum \<times> jsnum) list" where
  "calcRanges sz connections policy =
     (let (chunkSize, extraSize) = shrink sz connections (resolve_chunkSize policy sz);
          n = chunk_count sz chunkSize extraSize
      in case js_Array n of
           Inl e \<Rightarrow> Inl e
         | Inr n \<Rightarrow>
             Inr (to_ranges (Num 0)
                    (rebalance chunkSize n (map (chunk_len sz chunkSize extraSize n) [0..<n]))))"

section \<open>Strings, headers and the file system\<close>

text \<open>
  \<open>parseInt\<close> of a header value: leading white space, a sign, a \<open>0x\<close> prefix for
  radix 16, then the longest run of digits; NaN when there is no digit.
\<close>

definition is_ws :: "char \<Rightarrow> bool" where
  "is_ws c = (c \<in> {CHR '' '', CHR 0x09, CHR 0x0A, CHR 0x0B, CHR 0x0C, CHR 0x0D})"

definition digit_of :: "char \<Rightarrow> nat" where
  "digit_of c =
     (let k = of_char c :: nat in
      if 48 \<le> k \<and> k \<le> 57 then k - 48
      else if 97 \<le> k \<and> k \<le> 122 then k - 87
      else if 65 \<le> k \<and> k \<le> 90 then k - 55
      else 36)"

definition parseInt :: "string \<Rightarrow> jsnum" where
  "parseInt s =
     (let t = dropWhile is_ws s;
          neg = (take 1 t = ''-'');
          t1 = (if take 1 t = ''-'' \<or> take 1 t = ''+'' then drop 1 t else t);
          hex = (take 2 t1 = ''0x'' \<or> take 2 t1 = ''0X'');
          radix = (if hex then 16 else 10);
          t2 = (if hex then drop 2 t1 else t1);
          ds = takeWhile (\<lambda>c. digit_of c < radix) t2;
          v = foldl (\<lambda>a c. a * radix + digit_of c) 0 ds
      in if ds = [] then NaN else if neg then js_int (- int v) else js_nat v)"

text \<open>Response headers, keyed by lower-case name. A header is truthy when it is present
  and not the empty string.\<close>

type_synonym headers = "string \<Rightarrow> string option"

fun str_truthy :: "string option \<Rightarrow> bool" where
  "str_truthy None = False"
| "str_truthy (Some s) = (s \<noteq> [])"

text \<open>A number in a template literal (chunk ids are natural numbers).\<close>

fun show_nat :: "nat \<Rightarrow> string" where
  "show_nat n =
     (if n < 10 then [''0123456789'' ! n]
      else show_nat (n div 10) @ [''0123456789'' ! (n mod 10)])"

declare show_nat.simps [simp del]

text \<open>\<open>savedFilePath\<close> in a template literal: \<open>null\<close> prints as "null".\<close>

fun path_str :: "string option \<Rightarrow> string" where
  "path_str None = ''null''"
| "path_str (Some p) = p"

definition chunk_file :: "string option \<Rightarrow> nat \<Rightarrow> string" where
  "chunk_file savedFilePath i = path_str savedFilePath @ ''.$$'' @ show_nat i"

definition part_file :: "string option \<Rightarrow> nat \<Rightarrow> string" where
  "part_file savedFilePath i = path_str savedFilePath @ ''.$$'' @ show_nat i @ ''$PART''"

text \<open>
  The disk, as \<open>fs.stat\<close> sees it: a path is missing (ENOENT), cannot be read (any
  other error), or has an entry that is a directory or a file of some size.
\<close>

datatype fs_entry = Missing | Unreadable | Entry (isDirectory: bool) (st_size: nat)

type_synonym disk = "string \<Rightarrow> fs_entry"

text \<open>\<open>fileStats\<close>: null for ENOENT, rejection for another error, the stats otherwise.\<close>

fun fileStats :: "disk \<Rightarrow> string \<Rightarrow> error + fs_entry option" where
  "fileStats d loc =
     (case d loc of
        Missing \<Rightarrow> Inr None
      | Unreadable \<Rightarrow> Inl FsError
      | Entry dir n \<Rightarrow> Inr (Some (Entry dir n)))"

text \<open>
  The functions of Node's \<open>path\<close> module that the downloader calls are parameters of
  the model.
\<close>

record path_ops =
  path_join :: "string \<Rightarrow> string \<Rightarrow> string"
  path_basename :: "string \<Rightarrow> string"
  path_dir :: "string \<Rightarrow> string"
  path_name :: "string \<Rightarrow> string"
  path_ext :: "string \<Rightarrow> string"

text \<open>\<open>validate\<close>: the parent of the destination exists and is a directory.\<close>

definition validate :: "path_ops \<Rightarrow> disk \<Rightarrow> string \<Rightarrow> bool" where
  "validate P d loc =
     (case fileStats d (path_dir P loc) of
        Inl e \<Rightarrow> False
      | Inr None \<Rightarrow> False
      | Inr (Some stat) \<Rightarrow> isDirectory stat)"

section \<open>The session\<close>

datatype exist_behavior = NewFile | Overwrite | Ignore

record options =
  existBehavior :: exist_behavior
  followRedirect :: bool
  connections :: jsnum
  chunkSize :: chunk_policy
  maxRetry :: nat
  retryDelay :: jsnum
  retryBackoff :: jsnum
  reportInterval :: jsnum

definition default_options :: options where
  "default_options =
     \<lparr>existBehavior = NewFile, followRedirect = True, connections = Num 5,
      chunkSize = Computed default_chunkSize, maxRetry = 3, retryDelay = Num 2000,
      retryBackoff = Num 3000, reportInterval = Num 2500\<rparr>"

text \<open>
  What does not change during a session: the options, the URL, the \<open>path\<close> functions
  and whether the host listens for \<open>progress\<close> and \<open>metadata\<close>. The host is assumed to
  listen for \<open>error\<close> (an emitter with no \<open>error\<close> listener throws instead).
\<close>

record config =
  opts :: options
  url :: string
  pathlib :: path_ops
  progress_listeners :: bool
  metadata_listeners :: bool

record progress =
  speed :: jsnum
  bytes :: jsnum
  percentage :: jsnum

definition zero_progress :: progress where
  "zero_progress = \<lparr>speed = Num 0, bytes = Num 0, percentage = Num 0\<rparr>"

record speed_ref =
  ref_bytes :: jsnum
  ref_time :: jsnum

record metadata =
  md_size :: jsnum
  md_chunks :: "jsnum list"
  md_isResume :: bool
  md_progress :: "jsnum list"
  md_finalAddress :: string
  md_parallel :: bool
  md_resumable :: bool
  md_savedFilePath :: "string option"

datatype event =
    EvMetadata metadata
  | EvProgress progress "progress list"
  | EvRetry nat nat error
  | EvBuild jsnum
  | EvEnd
  | EvError error
  | EvClose

text \<open>
  What the outside sees of a session, in order: the events it emits, the GET requests
  its workers send (chunk id and range) and the sleeps they start.
\<close>

datatype action =
    Emit event
  | Get nat "(jsnum \<times> jsnum) option"
  | Sleep jsnum

datatype await = AwaitClose | AwaitRename | AwaitDelay

text \<open>
  A chunk worker suspended at an \<open>await\<close> of \<open>_download\<close>: its range, the attempt it
  is in, the attempts left, its locals \<open>size\<close> and \<open>error\<close>, whether \<open>ready\<close> has
  fired, and the \<open>await\<close> it is at.
\<close>

record worker =
  w_range :: "(jsnum \<times> jsnum) option"
  w_attempt :: nat
  w_rest :: "nat list"
  w_size :: jsnum
  w_error :: "error option"
  w_ready :: bool
  w_await :: await

text \<open>The assembler suspended in its first loop (piping chunk \<open>i\<close>) or its second
  (unlinking chunk \<open>i\<close>).\<close>

datatype builder = Piping nat | Unlinking nat

text \<open>
  The state of a session: the fields of the \<open>EasyDl\<close> object, the disk, the suspended
  tasks, and the trace of actions so far. \<open>partsProgress\<close> holds the slots of the
  array that have been assigned (they are assigned in index order).
\<close>

record session =
  started :: bool
  destroyed :: bool
  is_done :: bool
  savedFilePath :: "string option"
  reqs :: "nat \<Rightarrow> bool option"
  ranges :: "(jsnum \<times> jsnum) list"
  jobs :: "nat list"
  workers :: int
  downloadedChunks :: nat
  totalChunks :: nat
  partsSpeedRef :: "nat \<Rightarrow> speed_ref option"
  speedRef :: speed_ref
  fsize :: jsnum
  isResume :: bool
  totalProgress :: progress
  partsProgress :: "progress list"
  finalAddress :: string
  parallel :: bool
  resumable :: bool
  headers :: "headers option"
  disk :: disk
  awaiting_headers :: bool
  tasks :: "nat \<Rightarrow> worker option"
  build :: "builder option"
  trace :: "action list"

definition emit :: "event \<Rightarrow> session \<Rightarrow> session" where
  "emit e st = st\<lparr>trace := trace st @ [Emit e]\<rparr>"

text \<open>\<open>destroy\<close>: once; every request in \<open>_reqs\<close> is destroyed, then \<open>close\<close> is emitted.\<close>

definition destroy :: "session \<Rightarrow> session" where
  "destroy st =
     (if destroyed st then st
      else emit EvClose
             (st\<lparr>destroyed := True, reqs := (\<lambda>i. map_option (\<lambda>_. True) (reqs st i))\<rparr>))"

section \<open>Progress reporter\<close>

text \<open>
  \<open>_report(id, force)\<close>. \<open>t0\<close> and \<open>now\<close> are the readings of the two calls of
  \<open>Date.now()\<close>: the first is only made when chunk \<open>id\<close> has no reference snapshot yet.
  The slot \<open>partsProgress[id]\<close> exists for every id a worker reports; for an id without
  a slot the source throws a TypeError, which is not represented here (the update of
  the list does nothing).
\<close>

definition speed_of :: "jsnum \<Rightarrow> jsnum \<Rightarrow> jsnum \<Rightarrow> jsnum \<Rightarrow> jsnum" where
  "speed_of b ref_b now ref_t = js_div (js_mul (Num 1000) (js_sub b ref_b)) (js_sub now ref_t)"

definition report :: "config \<Rightarrow> nat \<Rightarrow> bool \<Rightarrow> jsnum \<Rightarrow> jsnum \<Rightarrow> session \<Rightarrow> session" where
  "report C id' force t0 now st =
     (let r = (case partsSpeedRef st id' of
                 None \<Rightarrow> \<lparr>ref_bytes = Num 0, ref_time = t0\<rparr>
               | Some r \<Rightarrow> r);
          interval = reportInterval (opts C);
          p = partsProgress st ! id';
          st1 =
            (if force \<or> js_gt (js_sub now (ref_time r)) interval then
               st\<lparr>partsProgress :=
                     (partsProgress st)
                       [id' := p\<lparr>speed := speed_of (bytes p) (ref_bytes r) now (ref_time r)\<rparr>],
                   partsSpeedRef :=
                     (partsSpeedRef st)(id' \<mapsto> \<lparr>ref_bytes = bytes p, ref_time = now\<rparr>)\<rparr>
             else st\<lparr>partsSpeedRef := (partsSpeedRef st)(id' \<mapsto> r)\<rparr>)
      in if force \<or> js_gt (js_sub now (ref_time (speedRef st1))) interval then
           let tp = (totalProgress st1)
                      \<lparr>speed := speed_of (bytes (totalProgress st1)) (ref_bytes (speedRef st1))
                                   now (ref_time (speedRef st1))\<rparr>;
               st2 = st1\<lparr>totalProgress := tp,
                         speedRef := \<lparr>ref_bytes = bytes tp, ref_time = now\<rparr>\<rparr>
           in if progress_listeners C then emit (EvProgress tp (partsProgress st2)) st2
              else st2
         else st1)"

section \<open>Resume scanner\<close>

definition range_len :: "jsnum \<times> jsnum \<Rightarrow> jsnum" where
  "range_len r = js_add (js_sub (snd r) (fst r)) (Num 1)"

definition percent_of :: "jsnum \<Rightarrow> jsnum \<Rightarrow> jsnum" where
  "percent_of b sz = (if js_truthy sz then js_div (js_mul (Num 100) b) sz else Num 0)"

text \<open>The body of the loop of \<open>_syncJobs\<close> for chunk \<open>i\<close> with range \<open>r\<close>.\<close>

definition sync_chunk :: "nat \<Rightarrow> jsnum \<times> jsnum \<Rightarrow> session \<Rightarrow> error + session" where
  "sync_chunk i r st =
     (let st1 = st\<lparr>partsProgress := partsProgress st @ [zero_progress]\<rparr> in
      case fileStats (disk st1) (chunk_file (savedFilePath st1) i) of
        Inl e \<Rightarrow> Inl e
      | Inr None \<Rightarrow> Inr (st1\<lparr>jobs := jobs st1 @ [i]\<rparr>)
      | Inr (Some stats) \<Rightarrow>
          let sz = range_len r in
          if js_gt (js_nat (st_size stats)) sz
          then Inl (ChunkTooLarge sz (js_nat (st_size stats)))
          else if js_eq (js_nat (st_size stats)) sz then
            let tb = js_add (bytes (totalProgress st1)) sz in
            Inr (st1\<lparr>downloadedChunks := downloadedChunks st1 + 1,
                     partsProgress :=
                       partsProgress st @ [\<lparr>speed = Num 0, bytes = sz, percentage = Num 100\<rparr>],
                     totalProgress :=
                       (totalProgress st1)\<lparr>bytes := tb, percentage := percent_of tb (fsize st1)\<rparr>,
                     isResume := True\<rparr>)
          else Inr (st1\<lparr>jobs := jobs st1 @ [i]\<rparr>))"

fun sync_loop :: "(nat \<times> (jsnum \<times> jsnum)) list \<Rightarrow> session \<Rightarrow> error + session" where
  "sync_loop [] st = Inr st"
| "sync_loop ((i, r) # rest) st =
     (case sync_chunk i r st of Inl e \<Rightarrow> Inl e | Inr st1 \<Rightarrow> sync_loop rest st1)"

definition syncJobs :: "session \<Rightarrow> error + session" where
  "syncJobs st = sync_loop (enumerate 0 (ranges st)) (st\<lparr>partsProgress := []\<rparr>)"



section \<open>Redirect resolver\<close>

text \<open>
  What a HEAD request to an address yields: no response (the request's \<open>error\<close> event
  wins the race), or a response with its status code and headers. A server is a
  function from addresses to replies; the resolver asks for no address twice.
\<close>

datatype head_reply = NoReply | Reply "nat option" "headers option"

text \<open>The request primitive reports \<open>res.statusCode || 500\<close>.\<close>

fun status_or_500 :: "nat option \<Rightarrow> nat" where
  "status_or_500 None = 500"
| "status_or_500 (Some c) = (if c = 0 then 500 else c)"

definition requestHeader :: "(string \<Rightarrow> head_reply) \<Rightarrow> string \<Rightarrow> error + nat \<times> headers option" where
  "requestHeader server address =
     (case server address of
        NoReply \<Rightarrow> Inl TransportError
      | Reply code h \<Rightarrow> Inr (status_or_500 code, h))"

text \<open>
  The loop of \<open>followRedirect\<close>, with the set of visited addresses and the current
  address as arguments. \<open>None\<close> is a loop that never ends.
\<close>

partial_function (option) followRedirect_loop ::
  "(string \<Rightarrow> head_reply) \<Rightarrow> string \<Rightarrow> string set \<Rightarrow> string
     \<Rightarrow> (error + string \<times> headers option) option" where
  "followRedirect_loop server address visited currentAddress =
     (if currentAddress \<in> visited then Some (Inl (InfiniteRedirect currentAddress))
      else case requestHeader server currentAddress of
        Inl e \<Rightarrow> Some (Inl e)
      | Inr (statusCode, hs) \<Rightarrow>
          if statusCode = 200 \<or> statusCode = 206 then Some (Inr (currentAddress, hs))
          else if 300 < statusCode \<and> statusCode < 400 then
            (case hs of
               None \<Rightarrow> Some (Inl NoHeaderData)
             | Some h \<Rightarrow>
                 (case h ''location'' of
                    None \<Rightarrow> Some (Inl (NoLocation statusCode))
                  | Some loc \<Rightarrow>
                      if loc = [] then Some (Inl (NoLocation statusCode))
                      else followRedirect_loop server address
                             (insert currentAddress visited) loc))
          else if currentAddress \<noteq> address then Some (Inr (currentAddress, None))
          else Some (Inl (BadStatus statusCode)))"

definition followRedirect' ::
  "(string \<Rightarrow> head_reply) \<Rightarrow> string \<Rightarrow> (error + string \<times> headers option) option" where
  "followRedirect' server address = followRedirect_loop server address {} address"

text \<open>\<open>_getHeaders\<close>: the final address and the headers, or the error thrown.\<close>

definition getHeaders ::
  "options \<Rightarrow> string \<Rightarrow> (string \<Rightarrow> head_reply) \<Rightarrow> (error + string \<times> headers option) option" where
  "getHeaders opt u server =
     (if followRedirect opt then followRedirect' server u
      else case requestHeader server u of
        Inl e \<Rightarrow> Some (Inl e)
      | Inr (statusCode, hs) \<Rightarrow>
          if statusCode \<noteq> 200 \<and> statusCode \<noteq> 206 then Some (Inl (BadStatus statusCode))
          else Some (Inr (u, hs)))"

section \<open>Destination resolver\<close>

text \<open>
  The loop of \<open>_ensureDest\<close> on \<open>savedFilePath\<close>: the error thrown, if any, and the
  value \<open>savedFilePath\<close> is left with. \<open>None\<close> is a loop that never ends.
\<close>

partial_function (option) ensureDest ::
  "path_ops \<Rightarrow> exist_behavior \<Rightarrow> string \<Rightarrow> disk \<Rightarrow> string option
     \<Rightarrow> (error option \<times> string option) option" where
  "ensureDest P eb u d sp =
     (case sp of
        None \<Rightarrow> Some (None, None)
      | Some p \<Rightarrow>
          if p = [] then Some (None, Some p)
          else
            (case fileStats d p of
               Inl e \<Rightarrow> Some (Some e, Some p)
             | Inr stats \<Rightarrow>
                 (case stats of
                    None \<Rightarrow> Some (None, Some p)
                  | Some e \<Rightarrow>
                      if isDirectory e
                      then ensureDest P eb u d (Some (path_join P p (path_basename P u)))
                      else if eb = NewFile
                      then ensureDest P eb u d
                             (Some (path_join P (path_dir P p)
                                      (path_name P p @ ''(COPY)'' @ path_ext P p)))
                      else if eb = Ignore then ensureDest P eb u d None
                      else Some (None, Some p))))"

section \<open>Chunk workers\<close>

text \<open>
  The top of the attempt loop of \<open>_download\<close>, up to its first \<open>await\<close>: a new
  request, the local \<open>size\<close>, and a write stream that creates or truncates the
  \<open>$PART\<close> file.
\<close>

definition begin_attempt ::
  "nat \<Rightarrow> (jsnum \<times> jsnum) option \<Rightarrow> nat \<Rightarrow> nat list \<Rightarrow> session \<Rightarrow> session" where
  "begin_attempt id' range' attempt rest st =
     st\<lparr>reqs := (reqs st)(id' \<mapsto> False),
        disk := (disk st)(part_file (savedFilePath st) id' := Entry False 0),
        tasks := (tasks st)(id' \<mapsto>
          \<lparr>w_range = range', w_attempt = attempt, w_rest = rest,
           w_size = (case range' of
                       None \<Rightarrow> Num 0
                     | Some r \<Rightarrow> if js_truthy (range_len r) then range_len r else Num 0),
           w_error = None, w_ready = False, w_await = AwaitClose\<rparr>),
        trace := trace st @ [Get id' range']\<rparr>"

text \<open>The end of \<open>_download\<close>, after the loop: no attempt is left.\<close>

definition give_up :: "nat \<Rightarrow> session \<Rightarrow> session" where
  "give_up id' st = destroy (emit (EvError (ChunkFailed id')) (st\<lparr>tasks := (tasks st)(id' := None)\<rparr>))"

text \<open>\<open>_download(id, range)\<close> up to its first \<open>await\<close>; \<open>_attempts\<close> is
  \<open>[1, ..., maxRetry]\<close>.\<close>

definition download :: "config \<Rightarrow> nat \<Rightarrow> (jsnum \<times> jsnum) option \<Rightarrow> session \<Rightarrow> session" where
  "download C id' range' st =
     (case [1..<Suc (maxRetry (opts C))] of
        [] \<Rightarrow> give_up id' st
      | attempt # rest \<Rightarrow> begin_attempt id' range' attempt rest st)"

text \<open>\<open>parseInt\<close> of a header that may be absent (\<open>parseInt(undefined)\<close> is NaN).\<close>

fun header_int :: "string option \<Rightarrow> jsnum" where
  "header_int None = NaN"
| "header_int (Some s) = parseInt s"

text \<open>The \<open>ready\<close> handler of an attempt (registered with \<open>once\<close>).\<close>

definition on_ready :: "nat \<Rightarrow> nat option \<Rightarrow> headers \<Rightarrow> session \<Rightarrow> session" where
  "on_ready id' code h st =
     (case tasks st id' of
        None \<Rightarrow> st
      | Some w \<Rightarrow>
          if w_await w \<noteq> AwaitClose \<or> w_ready w then st
          else
            let statusCode = status_or_500 code;
                cl = h ''content-length'';
                contentLength =
                  (if str_truthy cl \<and> js_truthy (header_int cl) then header_int cl else Num 0);
                fail = (\<lambda>e. st\<lparr>tasks := (tasks st)(id' \<mapsto> w\<lparr>w_ready := True, w_error := Some e\<rparr>),
                                reqs := (reqs st)(id' := map_option (\<lambda>_. True) (reqs st id'))\<rparr>)
            in if statusCode \<noteq> 206 \<and> statusCode \<noteq> 200 then fail (ChunkStatus statusCode id')
               else if js_truthy (w_size w) \<and> js_truthy contentLength
                       \<and> \<not> js_eq (w_size w) contentLength
               then fail (ChunkLength (w_size w) contentLength id')
               else if w_range w \<noteq> None \<and> statusCode \<noteq> 206
               then fail (ChunkNot206 statusCode id')
               else
                 st\<lparr>tasks := (tasks st)(id' \<mapsto>
                       w\<lparr>w_ready := True,
                         w_size := (if \<not> js_truthy (w_size w) \<and> str_truthy cl
                                    then header_int cl else w_size w)\<rparr>),
                    fsize := (if \<not> js_truthy (fsize st) \<and> id' = 0 \<and> str_truthy cl
                              then header_int cl else fsize st)\<rparr>)"

text \<open>Bytes piped into a file by a write stream.\<close>

definition append_bytes :: "disk \<Rightarrow> string \<Rightarrow> nat \<Rightarrow> disk" where
  "append_bytes d loc n =
     d(loc := (case d loc of Entry dir k \<Rightarrow> Entry dir (k + n) | _ \<Rightarrow> Entry False n))"

text \<open>
  The \<open>data\<close> handler of an attempt, with the bytes the pipe writes to the \<open>$PART\<close>
  file. A destroyed request delivers no data. A worker only runs for an id that has a
  slot in \<open>partsProgress\<close>; without one the source throws a TypeError, which is not
  represented here.
\<close>

definition on_data :: "config \<Rightarrow> nat \<Rightarrow> nat \<Rightarrow> jsnum \<Rightarrow> jsnum \<Rightarrow> session \<Rightarrow> session" where
  "on_data C id' len t0 now st =
     (case tasks st id' of
        None \<Rightarrow> st
      | Some w \<Rightarrow>
          if w_await w \<noteq> AwaitClose \<or> reqs st id' \<noteq> Some False then st
          else
            let p = partsProgress st ! id';
                b = js_add (bytes p) (js_nat len);
                tb = js_add (bytes (totalProgress st)) (js_nat len)
            in report C id' False t0 now
                 (st\<lparr>partsProgress :=
                        (partsProgress st)[id' := p\<lparr>bytes := b, percentage := percent_of b (w_size w)\<rparr>],
                      totalProgress :=
                        (totalProgress st)\<lparr>bytes := tb, percentage := percent_of tb (fsize st)\<rparr>,
                      disk := append_bytes (disk st) (part_file (savedFilePath st) id') len\<rparr>))"

text \<open>The \<open>error\<close> handler of an attempt's request.\<close>

definition on_req_error :: "nat \<Rightarrow> session \<Rightarrow> session" where
  "on_req_error id' st =
     (case tasks st id' of
        None \<Rightarrow> st
      | Some w \<Rightarrow>
          if w_await w \<noteq> AwaitClose \<or> destroyed st then st
          else emit (EvError TransportError) st)"

text \<open>
  Modelled from the spec: \<open>delay\<close> of \<open>./helpers\<close> (not among the sources) sleeps the
  given number of milliseconds; the call is recorded as a \<open>Sleep\<close> action.
\<close>

definition delay :: "jsnum \<Rightarrow> session \<Rightarrow> session" where
  "delay ms st = st\<lparr>trace := trace st @ [Sleep ms]\<rparr>"

definition retry_ms :: "options \<Rightarrow> nat \<Rightarrow> jsnum" where
  "retry_ms opt attempt =
     js_add (retryDelay opt) (js_mul (retryBackoff opt) (js_sub (js_nat attempt) (Num 1)))"

text \<open>
  The response closes and \<open>wait()\<close> resolves: the worker returns if the session is
  destroyed, starts the rename if the attempt has no error, and otherwise emits
  \<open>retry\<close> and starts the delay.
\<close>

definition on_close :: "config \<Rightarrow> nat \<Rightarrow> session \<Rightarrow> session" where
  "on_close C id' st =
     (case tasks st id' of
        None \<Rightarrow> st
      | Some w \<Rightarrow>
          if w_await w \<noteq> AwaitClose then st
          else if destroyed st then st\<lparr>tasks := (tasks st)(id' := None)\<rparr>
          else
            (case w_error w of
               None \<Rightarrow> st\<lparr>tasks := (tasks st)(id' \<mapsto> w\<lparr>w_await := AwaitRename\<rparr>)\<rparr>
             | Some e \<Rightarrow>
                 delay (retry_ms (opts C) (w_attempt w))
                   (emit (EvRetry id' (w_attempt w) e)
                      (st\<lparr>tasks := (tasks st)(id' \<mapsto> w\<lparr>w_await := AwaitDelay\<rparr>)\<rparr>))))"

text \<open>The delay ends: the next attempt, or the end of \<open>_download\<close>.\<close>

definition on_timer :: "nat \<Rightarrow> session \<Rightarrow> session" where
  "on_timer id' st =
     (case tasks st id' of
        None \<Rightarrow> st
      | Some w \<Rightarrow>
          if w_await w \<noteq> AwaitDelay then st
          else
            (case w_rest w of
               [] \<Rightarrow> give_up id' st
             | attempt # rest \<Rightarrow> begin_attempt id' (w_range w) attempt rest st))"

section \<open>Assembler\<close>

text \<open>The end of \<open>_buildFile\<close>, after its two loops.\<close>

definition build_finish :: "session \<Rightarrow> session" where
  "build_finish st = destroy (emit EvEnd (st\<lparr>is_done := True, build := None\<rparr>))"

text \<open>\<open>_buildFile\<close> up to its first \<open>await\<close>.\<close>

definition buildFile :: "session \<Rightarrow> session" where
  "buildFile st =
     (if destroyed st then st
      else
        let st1 = emit (EvBuild (Num 0)) st;
            st2 = st1\<lparr>disk := (disk st1)(path_str (savedFilePath st1) := Entry False 0)\<rparr>
        in if 0 < totalChunks st2 then st2\<lparr>build := Some (Piping 0)\<rparr> else build_finish st2)"

text \<open>The chunk being piped ends: its bytes are in the output; the next chunk, or the
  second loop.\<close>

definition on_pipe_end :: "session \<Rightarrow> session" where
  "on_pipe_end st =
     (case build st of
        Some (Piping i) \<Rightarrow>
          (case disk st (chunk_file (savedFilePath st) i) of
             Entry dir n \<Rightarrow>
               let st1 = emit (EvBuild (js_mul (Num 100) (js_div (js_nat i) (js_nat (totalChunks st)))))
                           (st\<lparr>disk := append_bytes (disk st) (path_str (savedFilePath st)) n\<rparr>)
               in if i + 1 < totalChunks st1 then st1\<lparr>build := Some (Piping (i + 1))\<rparr>
                  else st1\<lparr>build := Some (Unlinking 0)\<rparr>
           | _ \<Rightarrow> st)
      | _ \<Rightarrow> st)"

text \<open>A read or write error while piping: the \<open>catch\<close> of \<open>_buildFile\<close>.\<close>

definition on_pipe_error :: "session \<Rightarrow> session" where
  "on_pipe_error st =
     (case build st of
        Some (Piping i) \<Rightarrow> destroy (emit (EvError FsError) (st\<lparr>build := None\<rparr>))
      | _ \<Rightarrow> st)"

text \<open>An \<open>unlink\<close> of the second loop calls back (its error is ignored).\<close>

definition on_unlink_done :: "bool \<Rightarrow> session \<Rightarrow> session" where
  "on_unlink_done ok st =
     (case build st of
        Some (Unlinking i) \<Rightarrow>
          let st1 = (if ok then st\<lparr>disk := (disk st)(chunk_file (savedFilePath st) i := Missing)\<rparr>
                     else st)
          in if i + 1 < totalChunks st1 then st1\<lparr>build := Some (Unlinking (i + 1))\<rparr>
             else build_finish st1
      | _ \<Rightarrow> st)"

section \<open>Worker pool\<close>

text \<open>\<open>_processChunks\<close>: jobs are popped from the end of the queue.\<close>

function processChunks :: "config \<Rightarrow> session \<Rightarrow> session" where
  "processChunks C st =
     (if \<not> destroyed st \<and> jobs st \<noteq> [] \<and> js_lt (js_int (workers st)) (connections (opts C))
      then
        let id' = last (jobs st);
            st1 = st\<lparr>jobs := butlast (jobs st)\<rparr>;
            st2 = download C id'
                    (if id' < length (ranges st1) then Some (ranges st1 ! id') else None) st1
        in processChunks C (st2\<lparr>workers := workers st2 + 1\<rparr>)
      else st)"
  by pat_completeness auto
termination
  by (relation "measure (\<lambda>(C, st). length (jobs st))")
    (auto simp: download_def give_up_def begin_attempt_def destroy_def emit_def
          split: list.split)

declare processChunks.simps [simp del]

text \<open>\<open>_onChunkCompleted\<close>.\<close>

definition onChunkCompleted :: "config \<Rightarrow> nat \<Rightarrow> jsnum \<Rightarrow> jsnum \<Rightarrow> session \<Rightarrow> session" where
  "onChunkCompleted C id' t0 now st =
     (case reqs st id' of
        None \<Rightarrow> st
      | Some r \<Rightarrow>
          let st1 = report C id' True t0 now (st\<lparr>reqs := (reqs st)(id' := None)\<rparr>);
              st2 = st1\<lparr>partsProgress :=
                          (partsProgress st1)[id' := (partsProgress st1 ! id')\<lparr>speed := Num 0\<rparr>],
                        workers := workers st1 - 1,
                        downloadedChunks := downloadedChunks st1 + 1\<rparr>
          in if downloadedChunks st2 = totalChunks st2 then buildFile st2
             else processChunks C st2)"

text \<open>
  The rename of the \<open>$PART\<close> file calls back: on failure the worker emits \<open>error\<close>;
  either way it goes on to \<open>_onChunkCompleted\<close>.
\<close>

definition on_rename_done :: "config \<Rightarrow> nat \<Rightarrow> bool \<Rightarrow> jsnum \<Rightarrow> jsnum \<Rightarrow> session \<Rightarrow> session" where
  "on_rename_done C id' ok t0 now st =
     (case tasks st id' of
        None \<Rightarrow> st
      | Some w \<Rightarrow>
          if w_await w \<noteq> AwaitRename then st
          else
            let old = part_file (savedFilePath st) id';
                new = chunk_file (savedFilePath st) id';
                st1 = st\<lparr>tasks := (tasks st)(id' := None)\<rparr>;
                st2 = (if ok \<and> disk st1 old \<noteq> Missing
                       then st1\<lparr>disk := (disk st1)(new := disk st1 old, old := Missing)\<rparr>
                       else emit (EvError FsError) st1)
            in onChunkCompleted C id' t0 now st2)"

section \<open>Coordinator\<close>

text \<open>The \<open>catch\<close> of \<open>_start\<close>.\<close>

definition start_catch :: "error \<Rightarrow> session \<Rightarrow> session" where
  "start_catch e st = destroy (emit (EvError e) st)"

text \<open>
  \<open>_start\<close> up to the \<open>await\<close> of \<open>_getHeaders\<close>. A destroyed session throws outside
  the \<open>try\<close>: the promise is rejected and nothing is emitted.
\<close>

definition start_begin :: "config \<Rightarrow> session \<Rightarrow> session" where
  "start_begin C st =
     (if started st then st
      else
        let st1 = st\<lparr>started := True\<rparr> in
        if destroyed st1 then st1
        else case ensureDest (pathlib C) (existBehavior (opts C)) (url C) (disk st1)
                    (savedFilePath st1) of
          None \<Rightarrow> st1
        | Some (err, sp) \<Rightarrow>
            let st2 = st1\<lparr>savedFilePath := sp\<rparr> in
            (case err of
               Some e \<Rightarrow> start_catch e st2
             | None \<Rightarrow>
                 (case sp of
                    None \<Rightarrow> st2
                  | Some p \<Rightarrow>
                      if p = [] then st2
                      else if \<not> validate (pathlib C) (disk st2) p
                      then start_catch InvalidDestination st2
                      else st2\<lparr>awaiting_headers := True\<rparr>)))"

definition emit_metadata :: "config \<Rightarrow> session \<Rightarrow> session" where
  "emit_metadata C st =
     (if metadata_listeners C then
        emit (EvMetadata
               \<lparr>md_size = fsize st, md_chunks = map range_len (ranges st),
                md_isResume = isResume st, md_progress = map percentage (partsProgress st),
                md_finalAddress = finalAddress st, md_parallel = parallel st,
                md_resumable = resumable st, md_savedFilePath = savedFilePath st\<rparr>) st
      else st)"

text \<open>The parallel branch of \<open>_start\<close>, from \<open>parseInt\<close> of the content length on.\<close>

definition start_parallel :: "config \<Rightarrow> string option \<Rightarrow> session \<Rightarrow> session" where
  "start_parallel C cl st =
     (let st1 = st\<lparr>fsize := header_int cl\<rparr> in
      case calcRanges (fsize st1) (connections (opts C)) (chunkSize (opts C)) of
        Inl e \<Rightarrow> start_catch e st1
      | Inr rs \<Rightarrow>
          (case syncJobs (st1\<lparr>ranges := ranges st1 @ rs\<rparr>) of
             Inl e \<Rightarrow> start_catch e (st1\<lparr>ranges := ranges st1 @ rs\<rparr>)
           | Inr st2 \<Rightarrow>
               let st3 = st2\<lparr>totalChunks := length (ranges st2)\<rparr> in
               emit_metadata C (if jobs st3 = [] then buildFile st3 else processChunks C st3)))"

text \<open>The single-request branch of \<open>_start\<close>.\<close>

definition start_single :: "config \<Rightarrow> session \<Rightarrow> session" where
  "start_single C st =
     (let cl = (case headers st of None \<Rightarrow> None | Some h \<Rightarrow> h ''content-length'');
          st1 = st\<lparr>fsize := (if str_truthy cl then header_int cl else fsize st),
                   resumable := False, parallel := False,
                   partsProgress := [zero_progress], totalChunks := 1\<rparr>
      in emit_metadata C (download C 0 None st1))"

text \<open>\<open>_start\<close> from the result of \<open>_getHeaders\<close> on.\<close>

definition start_headers :: "config \<Rightarrow> (string \<Rightarrow> head_reply) \<Rightarrow> session \<Rightarrow> session" where
  "start_headers C server st =
     (if \<not> awaiting_headers st then st
      else case getHeaders (opts C) (url C) server of
        None \<Rightarrow> st
      | Some (Inl e) \<Rightarrow> start_catch e (st\<lparr>awaiting_headers := False\<rparr>)
      | Some (Inr (address, hs)) \<Rightarrow>
          let st1 = st\<lparr>awaiting_headers := False, finalAddress := address, headers := hs\<rparr> in
          (case hs of
             None \<Rightarrow> start_single C st1
           | Some h \<Rightarrow>
               if connections (opts C) \<noteq> Num 1 \<and> str_truthy (h ''content-length'')
                  \<and> h ''accept-ranges'' = Some ''bytes''
               then start_parallel C (h ''content-length'') st1
               else start_single C st1))"

section \<open>The event loop\<close>

text \<open>
  A session advances by callbacks, each run to completion: the tick that runs
  \<open>_start\<close>, the answer of the header probe, the events of a worker's request, the
  callback of a rename, a timer, the events of the assembler's streams, and a call of
  \<open>destroy()\<close> by the host. A callback for a task that is not waiting for it does
  nothing.
\<close>

datatype input =
    Start
  | HeadReplies "string \<Rightarrow> head_reply"
  | Ready nat "nat option" headers
  | Data nat nat jsnum jsnum
  | ReqError nat
  | Close nat
  | RenameDone nat bool jsnum jsnum
  | TimerFired nat
  | PipeEnd
  | PipeError
  | UnlinkDone bool
  | Destroy

fun step :: "config \<Rightarrow> session \<Rightarrow> input \<Rightarrow> session" where
  "step C st Start = start_begin C st"
| "step C st (HeadReplies server) = start_headers C server st"
| "step C st (Ready id' code h) = on_ready id' code h st"
| "step C st (Data id' len t0 now) = on_data C id' len t0 now st"
| "step C st (ReqError id') = on_req_error id' st"
| "step C st (Close id') = on_close C id' st"
| "step C st (RenameDone id' ok t0 now) = on_rename_done C id' ok t0 now st"
| "step C st (TimerFired id') = on_timer id' st"
| "step C st PipeEnd = on_pipe_end st"
| "step C st PipeError = on_pipe_error st"
| "step C st (UnlinkDone ok) = on_unlink_done ok st"
| "step C st Destroy = destroy st"

definition run :: "config \<Rightarrow> session \<Rightarrow> input list \<Rightarrow> session" where
  "run C st inputs = foldl (step C) st inputs"

text \<open>A new \<open>EasyDl\<close> object for a resolved destination, on a disk, at time \<open>t\<close>.\<close>

definition new_session :: "string \<Rightarrow> string \<Rightarrow> disk \<Rightarrow> jsnum \<Rightarrow> session" where
  "new_session u dest d t =
     \<lparr>started = False, destroyed = False, is_done = False, savedFilePath = Some dest,
      reqs = (\<lambda>i. None), ranges = [], jobs = [], workers = 0, downloadedChunks = 0,
      totalChunks = 0, partsSpeedRef = (\<lambda>i. None),
      speedRef = \<lparr>ref_bytes = Num 0, ref_time = t\<rparr>, fsize = Num 0, isResume = False,
      totalProgress = zero_progress, partsProgress = [], finalAddress = u, parallel = True,
      resumable = True, headers = None, disk = d, awaiting_headers = False,
      tasks = (\<lambda>i. None), build = None, trace = []\<rparr>"

section \<open>A concrete host\<close>

text \<open>
  For the examples: \<open>path\<close> functions that agree with those of Node on the two paths
  used below, \<open>/tmp/f\<close> and \<open>http://h/f\<close> (absolute, normalised, without extension), and
  are not meant for other paths; a disk that holds only the directory \<open>/tmp\<close>; and a
  configuration with the default options whose host listens for every event.
\<close>

definition posix :: path_ops where
  "posix =
     \<lparr>path_join = (\<lambda>a b. a @ ''/'' @ b),
      path_basename = (\<lambda>p. rev (takeWhile (\<lambda>c. c \<noteq> CHR ''/'') (rev p))),
      path_dir = (\<lambda>p. rev (drop 1 (dropWhile (\<lambda>c. c \<noteq> CHR ''/'') (rev p)))),
      path_name = (\<lambda>p. rev (takeWhile (\<lambda>c. c \<noteq> CHR ''/'') (rev p))),
      path_ext = (\<lambda>p. [])\<rparr>"

definition tmp_disk :: disk where
  "tmp_disk = (\<lambda>p. if p = ''/tmp'' then Entry True 4096 else Missing)"

definition host :: "options \<Rightarrow> config" where
  "host opt =
     \<lparr>opts = opt, url = ''http://h/f'', pathlib = posix,
      progress_listeners = True, metadata_listeners = True\<rparr>"

definition fresh :: "disk \<Rightarrow> session" where
  "fresh d = new_session ''http://h/f'' ''/tmp/f'' d (Num 0)"

text \<open>Two connections and chunks of 500 bytes; a server that answers every HEAD with
  status 200, 1000 bytes and range support.\<close>

definition two_chunks :: options where
  "two_chunks = default_options\<lparr>connections := Num 2, chunkSize := Fixed (Num 500)\<rparr>"

text \<open>Headers of a response: none, or the two that select parallel mode.\<close>

definition no_headers :: headers where
  "no_headers = (\<lambda>k. None)"

definition range_headers :: "string \<Rightarrow> headers" where
  "range_headers len =
     (\<lambda>k. if k = ''content-length'' then Some len
          else if k = ''accept-ranges'' then Some ''bytes'' else None)"

definition serve_1000 :: "string \<Rightarrow> head_reply" where
  "serve_1000 = (\<lambda>a. Reply (Some 200) (Some (range_headers ''1000'')))"

text \<open>A server without range support, and the callbacks of a single-request session
  whose three attempts are all answered with status 500.\<close>

definition serve_plain :: "string \<Rightarrow> head_reply" where
  "serve_plain = (\<lambda>a. Reply (Some 200) (Some no_headers))"

definition all_fail :: "input list" where
  "all_fail =
     [Start, HeadReplies serve_plain,
      Ready 0 (Some 500) no_headers, Close 0, TimerFired 0,
      Ready 0 (Some 500) no_headers, Close 0, TimerFired 0,
      Ready 0 (Some 500) no_headers, Close 0, TimerFired 0]"

text \<open>
  The callbacks of a parallel session in which the response to the GET of chunk 1
  announces the 500 bytes of its range, delivers 100 and closes; chunk 0 arrives whole,
  and the assembler runs to its end.
\<close>

definition truncated_download :: "input list" where
  "truncated_download =
     [Start, HeadReplies serve_1000,
      Ready 1 (Some 206) (range_headers ''500''), Data 1 100 (Num 5) (Num 5), Close 1,
      RenameDone 1 True (Num 10) (Num 10),
      Ready 0 (Some 206) (range_headers ''500''), Data 0 500 (Num 15) (Num 15), Close 0,
      RenameDone 0 True (Num 20) (Num 20),
      PipeEnd, PipeEnd, UnlinkDone True, UnlinkDone True]"

text \<open>
  Four connections and chunks of 250 bytes, on a disk left by an earlier session:
  chunks 0 and 3 are complete, chunk 1 has 10 of its 250 bytes, chunk 2 is absent.
\<close>

definition four_chunks :: options where
  "four_chunks = default_options\<lparr>connections := Num 4, chunkSize := Fixed (Num 250)\<rparr>"

definition resume_disk :: disk where
  "resume_disk =
     (\<lambda>p. if p = ''/tmp'' then Entry True 4096
          else if p = ''/tmp/f.$$0'' then Entry False 250
          else if p = ''/tmp/f.$$1'' then Entry False 10
          else if p = ''/tmp/f.$$3'' then Entry False 250
          else Missing)"

text \<open>The session about to scan that disk: the plan of four ranges is made.\<close>

definition resuming :: session where
  "resuming =
     (fresh resume_disk)
       \<lparr>started := True, fsize := Num 1000,
        ranges := [(Num 0, Num 249), (Num 250, Num 499), (Num 500, Num 749), (Num 750, Num 999)]\<rparr>"

text \<open>Servers that answer the HEAD of \<open>http://h/f\<close> with status 300, or 302, and the
  location \<open>http://h/g\<close>, and every other HEAD as above.\<close>

definition location_g :: headers where
  "location_g = (\<lambda>k. if k = ''location'' then Some ''http://h/g'' else None)"

definition serve_300 :: "string \<Rightarrow> head_reply" where
  "serve_300 = (\<lambda>a. if a = ''http://h/f'' then Reply (Some 300) (Some location_g)
                    else serve_1000 a)"

definition serve_302 :: "string \<Rightarrow> head_reply" where
  "serve_302 = (\<lambda>a. if a = ''http://h/f'' then Reply (Some 302) (Some location_g)
                    else serve_1000 a)"

text \<open>A server whose file has 3 bytes.\<close>

definition serve_3 :: "string \<Rightarrow> head_reply" where
  "serve_3 = (\<lambda>a. Reply (Some 200) (Some (range_headers ''3'')))"

text \<open>The callbacks of a parallel session whose two renames call back in the same
  millisecond.\<close>

definition same_ms :: "input list" where
  "same_ms =
     [Start, HeadReplies serve_1000,
      Ready 1 (Some 206) (range_headers ''500''), Data 1 500 (Num 5) (Num 5), Close 1,
      Ready 0 (Some 206) (range_headers ''500''), Data 0 500 (Num 6) (Num 6), Close 0,
      RenameDone 1 True (Num 10) (Num 10), RenameDone 0 True (Num 10) (Num 10)]"

section \<open>Evaluating a session on a schedule\<close>

lemmas eval_defs = run_def host_def fresh_def new_session_def tmp_disk_def posix_def
  start_begin_def start_headers_def start_parallel_def start_single_def start_catch_def
  emit_metadata_def getHeaders_def followRedirect'_def requestHeader_def validate_def
  calcRanges_def shrink_def chunk_count_def chunk_len_def rebalance_def js_sub_def js_gt_def
  js_eq_def syncJobs_def sync_chunk_def range_len_def percent_of_def chunk_file_def
  part_file_def download_def begin_attempt_def give_up_def destroy_def emit_def delay_def
  retry_ms_def on_ready_def on_data_def on_close_def on_timer_def on_req_error_def
  on_rename_done_def onChunkCompleted_def report_def speed_of_def buildFile_def
  build_finish_def on_pipe_end_def on_pipe_error_def on_unlink_done_def append_bytes_def
  default_options_def zero_progress_def range_headers_def no_headers_def two_chunks_def
  serve_1000_def serve_plain_def serve_3_def serve_300_def serve_302_def location_g_def
  four_chunks_def resume_disk_def resuming_def parseInt_def is_ws_def digit_of_def followRedirect_loop.simps
  ensureDest.simps processChunks.simps show_nat.simps upt_rec enumerate_eq_zip Let_def


section \<open>Properties of the chunk planner\<close>



text \<open>
  Claim C1 (the plan tiles \<open>[0, size)\<close> for every size, connection count and positive
  chunk size). The planner does not: for size 7, 4 connections and chunk size 30000 the
  chunk size shrinks to 1 with 3 extra bytes, the chunk count becomes \<open>floor(7 / 1) = 7\<close>
  instead of 4, and the plan is \<open>[0,1] [2,3] [4,5] [6,6] [7,7] [8,6] [7,6]\<close>: byte 7
  lies outside the file, two ranges have negative length and the lower bounds are not
  increasing.
\<close>

theorem C1_plan_7_4_not_tiling:
  "calcRanges (Num 7) (Num 4) (Fixed (Num 30000)) =
     Inr [(Num 0, Num 1), (Num 2, Num 3), (Num 4, Num 5), (Num 6, Num 6),
          (Num 7, Num 7), (Num 8, Num 6), (Num 7, Num 6)]"
  by code_simp

text \<open>
  Claim C3 as stated (size 100000, 5 connections, chunk size 30000 give the four ranges
  \<open>[0,29999] [30000,59999] [60000,84999] [85000,99999]\<close>) is false on the planner.
\<close>

theorem C3_four_ranges_counterexample:
  "calcRanges (Num 100000) (Num 5) (Fixed (Num 30000)) \<noteq>
     Inr [(Num 0, Num 29999), (Num 30000, Num 59999), (Num 60000, Num 84999),
          (Num 85000, Num 99999)]"
  by code_simp

text \<open>
  Claim C3, amended: for size 100000, 5 connections and chunk size 30000 the quotient
  \<open>100000 / 30000\<close> is below 5, so the chunk size shrinks to \<open>floor(100000 / 5) = 20000\<close>
  and the plan is the five ranges of 20000 bytes, with no rebalance. The four ranges with
  the rebalanced tail are the plan for 3 connections, where the chunk size is kept.
\<close>

theorem C3_plan_100000:
  "calcRanges (Num 100000) (Num 5) (Fixed (Num 30000)) =
     Inr [(Num 0, Num 19999), (Num 20000, Num 39999), (Num 40000, Num 59999),
          (Num 60000, Num 79999), (Num 80000, Num 99999)]
   \<and> calcRanges (Num 100000) (Num 3) (Fixed (Num 30000)) =
     Inr [(Num 0, Num 29999), (Num 30000, Num 59999), (Num 60000, Num 84999),
          (Num 85000, Num 99999)]"
  by code_simp

section \<open>Start with an existing destination\<close>

lemma ensureDest_ignore:
  assumes "d p = Entry False n" "p \<noteq> []"
  shows "ensureDest P Ignore u d (Some p) = Some (None, None)"
proof -
  have "ensureDest P Ignore u d (Some p) = ensureDest P Ignore u d None"
    using assms by (subst ensureDest.simps) simp
  also have "\<dots> = Some (None, None)"
    by (subst ensureDest.simps) simp
  finally show ?thesis .
qed

text \<open>A started session with no suspended task ignores every callback but \<open>destroy()\<close>.\<close>

lemma idle_step:
  assumes "started st" "\<not> awaiting_headers st" "tasks st = (\<lambda>i. None)" "build st = None"
    and "inp \<noteq> Destroy"
  shows "step C st inp = st"
  using assms
  by (cases inp)
     (simp_all add: start_begin_def start_headers_def on_ready_def on_data_def on_req_error_def
        on_close_def on_rename_done_def on_timer_def on_pipe_end_def on_pipe_error_def
        on_unlink_done_def)

lemma idle_run:
  assumes "started st" "\<not> awaiting_headers st" "tasks st = (\<lambda>i. None)" "build st = None"
    and "Destroy \<notin> set inputs"
  shows "run C st inputs = st"
  using assms(5)
proof (induction inputs)
  case Nil
  show ?case by (simp add: run_def)
next
  case (Cons a inputs)
  then have "step C st a = st" using idle_step[OF assms(1-4)] by auto
  with Cons show ?case by (simp add: run_def)
qed

text \<open>
  Claim C5 (with \<open>existBehavior = "ignore"\<close> and an existing destination file, start
  resolves the destination to null and ends by emitting \<open>close\<close>, without \<open>end\<close> and
  without \<open>error\<close>). What the code does: \<open>_start\<close> sets the destination to null and
  returns; it emits nothing, \<open>close\<close> included, and the session is not destroyed,
  whatever callbacks follow, as long as the host does not call \<open>destroy()\<close> itself.
\<close>

theorem C5_ignore_existing_is_silent:
  assumes "existBehavior (opts C) = Ignore"
    and "savedFilePath st = Some p" "p \<noteq> []" "disk st p = Entry False n"
    and "\<not> started st" "\<not> destroyed st" "\<not> awaiting_headers st"
    and "tasks st = (\<lambda>i. None)" "build st = None"
    and "Destroy \<notin> set inputs"
  shows "savedFilePath (run C st (Start # inputs)) = None
       \<and> trace (run C st (Start # inputs)) = trace st
       \<and> \<not> destroyed (run C st (Start # inputs))"
proof -
  have s: "start_begin C st = st\<lparr>started := True, savedFilePath := None\<rparr>"
    using assms(1-6) by (simp add: start_begin_def ensureDest_ignore)
  have "run C st (Start # inputs) = run C (start_begin C st) inputs"
    by (simp add: run_def)
  also have "\<dots> = start_begin C st"
    using assms by (intro idle_run) (simp_all add: s)
  finally show ?thesis using assms by (simp add: s)
qed

text \<open>The same on the concrete host, where \<open>/tmp/f\<close> is a file of 10 bytes: the trace
  stays empty.\<close>

theorem C5_ignore_existing_witness:
  "savedFilePath (run (host (default_options\<lparr>existBehavior := Ignore\<rparr>))
        (fresh (tmp_disk(''/tmp/f'' := Entry False 10))) [Start, HeadReplies serve_1000]) = None
   \<and> trace (run (host (default_options\<lparr>existBehavior := Ignore\<rparr>))
        (fresh (tmp_disk(''/tmp/f'' := Entry False 10))) [Start, HeadReplies serve_1000]) = []
   \<and> \<not> destroyed (run (host (default_options\<lparr>existBehavior := Ignore\<rparr>))
        (fresh (tmp_disk(''/tmp/f'' := Entry False 10))) [Start, HeadReplies serve_1000])"
  using C5_ignore_existing_is_silent
    [of "host (default_options\<lparr>existBehavior := Ignore\<rparr>)"
        "fresh (tmp_disk(''/tmp/f'' := Entry False 10))" "''/tmp/f''" 10
        "[HeadReplies serve_1000]"]
  by (simp add: host_def fresh_def new_session_def)

section \<open>Events after close\<close>

text \<open>
  Claim C6 (\<open>destroy()\<close> is idempotent, and \<open>close\<close> is emitted exactly once and is the
  last event of every session). The code emits after \<open>close\<close>: with two chunks whose
  every GET is answered with status 500, both workers use up their three attempts; the
  first to wake from its last sleep emits \<open>error\<close> and destroys the session, and the
  second then emits \<open>error\<close> again, after \<open>close\<close>, because the end of \<open>_download\<close>
  does not look at the destroyed flag.
\<close>

theorem C6_error_after_close:
  "trace (run (host two_chunks) (fresh tmp_disk)
     [Start, HeadReplies serve_1000,
      Ready 1 (Some 500) no_headers, Close 1, Ready 0 (Some 500) no_headers, Close 0,
      TimerFired 1, TimerFired 0,
      Ready 1 (Some 500) no_headers, Close 1, Ready 0 (Some 500) no_headers, Close 0,
      TimerFired 1, TimerFired 0,
      Ready 1 (Some 500) no_headers, Close 1, Ready 0 (Some 500) no_headers, Close 0,
      TimerFired 1, TimerFired 0]) =
   [Get 1 (Some (Num 500, Num 999)), Get 0 (Some (Num 0, Num 499)),
    Emit (EvMetadata
      \<lparr>md_size = Num 1000, md_chunks = [Num 500, Num 500],
         md_isResume = False, md_progress = [Num 0, Num 0],
         md_finalAddress = ''http://h/f'', md_parallel = True,
         md_resumable = True, md_savedFilePath = Some ''/tmp/f''\<rparr>),
    Emit (EvRetry 1 1 (ChunkStatus 500 1)), Sleep (Num 2000),
    Emit (EvRetry 0 1 (ChunkStatus 500 0)), Sleep (Num 2000),
    Get 1 (Some (Num 500, Num 999)), Get 0 (Some (Num 0, Num 499)),
    Emit (EvRetry 1 2 (ChunkStatus 500 1)), Sleep (Num 5000),
    Emit (EvRetry 0 2 (ChunkStatus 500 0)), Sleep (Num 5000),
    Get 1 (Some (Num 500, Num 999)), Get 0 (Some (Num 0, Num 499)),
    Emit (EvRetry 1 3 (ChunkStatus 500 1)), Sleep (Num 8000),
    Emit (EvRetry 0 3 (ChunkStatus 500 0)), Sleep (Num 8000),
    Emit (EvError (ChunkFailed 1)), Emit EvClose,
    Emit (EvError (ChunkFailed 0))]"
  by (simp add: eval_defs)

section \<open>Retry budget\<close>

text \<open>
  Claim C7 (a failed attempt \<open>k\<close>, \<open>1 \<le> k \<le> maxRetry\<close>, is followed by a \<open>retry\<close> event and a
  sleep of \<open>retryDelay + retryBackoff * (k - 1)\<close> ms before the next attempt; with the
  defaults the sleeps are 2000, 5000 and 8000 ms before attempts 2, 3 and 4, and then the
  failure is fatal). The options are documented as \<open>maxRetry\<close>, "Maximum number of retries
  when error occured", and \<open>retryDelay\<close>, "Delay before attempting to retry in ms", but
  \<open>_download\<close> iterates over \<open>_attempts = [1, ..., maxRetry]\<close>, so \<open>maxRetry\<close> bounds
  the attempts, not the retries. In a single-request session whose every GET is answered
  with status 500 and the default \<open>maxRetry = 3\<close> there are three GETs, that is two
  retries; after the third failure the worker still emits \<open>retry\<close> with attempt 3 and
  sleeps 8000 ms, and what follows the sleep is the fatal error, not attempt 4. With
  \<open>maxRetry = 0\<close> no GET is made at all: the worker reports the chunk as failed at once,
  before \<open>metadata\<close>.
\<close>

theorem C7_third_sleep_then_fatal:
  "trace (run (host default_options) (fresh tmp_disk) all_fail) =
     [Get 0 None,
      Emit (EvMetadata
        \<lparr>md_size = Num 0, md_chunks = [], md_isResume = False, md_progress = [Num 0],
         md_finalAddress = ''http://h/f'', md_parallel = False, md_resumable = False,
         md_savedFilePath = Some ''/tmp/f''\<rparr>),
      Emit (EvRetry 0 1 (ChunkStatus 500 0)), Sleep (Num 2000), Get 0 None,
      Emit (EvRetry 0 2 (ChunkStatus 500 0)), Sleep (Num 5000), Get 0 None,
      Emit (EvRetry 0 3 (ChunkStatus 500 0)), Sleep (Num 8000),
      Emit (EvError (ChunkFailed 0)), Emit EvClose]
   \<and> trace (run (host (default_options\<lparr>maxRetry := 0\<rparr>)) (fresh tmp_disk)
              [Start, HeadReplies serve_plain]) =
     [Emit (EvError (ChunkFailed 0)), Emit EvClose,
      Emit (EvMetadata
        \<lparr>md_size = Num 0, md_chunks = [], md_isResume = False, md_progress = [Num 0],
         md_finalAddress = ''http://h/f'', md_parallel = False, md_resumable = False,
         md_savedFilePath = Some ''/tmp/f''\<rparr>)]"
  by (simp add: eval_defs all_fail_def)

section \<open>Completed chunk files\<close>

text \<open>
  Claim C2 (a completed chunk file \<open>P.$$<id>\<close> on disk has the size of its range, because
  the worker renames the \<open>$PART\<close> file only for an attempt that wrote exactly that many
  bytes). \<open>_download\<close> renames whenever the response closes with no error recorded by
  the \<open>ready\<close> handler; the bytes written are not counted, although the \<open>ready\<close> handler
  compares the announced content length with the range and \<open>_syncJobs\<close> accepts a chunk
  file as complete only when its size is the range length. In the session below the
  response for chunk 1 announces its 500 bytes, delivers 100 and closes: after the rename
  \<open>/tmp/f.$$1\<close> has 100 bytes for a range of 500, the chunk counts as completed, and the
  assembler builds an output of 600 bytes for a download of 1000 and the session emits
  \<open>end\<close>.
\<close>

theorem C2_truncated_chunk_assembled:
  "disk (run (host two_chunks) (fresh tmp_disk) (take 6 truncated_download)) ''/tmp/f.$$1''
     = Entry False 100
   \<and> map range_len (ranges (run (host two_chunks) (fresh tmp_disk) truncated_download))
     = [Num 500, Num 500]
   \<and> fsize (run (host two_chunks) (fresh tmp_disk) truncated_download) = Num 1000
   \<and> disk (run (host two_chunks) (fresh tmp_disk) truncated_download) ''/tmp/f''
     = Entry False 600
   \<and> is_done (run (host two_chunks) (fresh tmp_disk) truncated_download)
   \<and> trace (run (host two_chunks) (fresh tmp_disk) truncated_download) =
       [Get 1 (Some (Num 500, Num 999)), Get 0 (Some (Num 0, Num 499)),
        Emit (EvMetadata
          \<lparr>md_size = Num 1000, md_chunks = [Num 500, Num 500],
           md_isResume = False, md_progress = [Num 0, Num 0],
           md_finalAddress = ''http://h/f'', md_parallel = True,
           md_resumable = True, md_savedFilePath = Some ''/tmp/f''\<rparr>),
        Emit (EvProgress \<lparr>speed = Num 10000, bytes = Num 100, percentage = Num 10\<rparr>
          [\<lparr>speed = Num 0, bytes = Num 0, percentage = Num 0\<rparr>,
           \<lparr>speed = Num 20000, bytes = Num 100, percentage = Num 20\<rparr>]),
        Emit (EvProgress \<lparr>speed = Num 50000, bytes = Num 600, percentage = Num 60\<rparr>
          [\<lparr>speed = Num 100000, bytes = Num 500, percentage = Num 100\<rparr>,
           \<lparr>speed = Num 0, bytes = Num 100, percentage = Num 20\<rparr>]),
        Emit (EvBuild (Num 0)), Emit (EvBuild (Num 0)), Emit (EvBuild (Num 50)),
        Emit EvEnd, Emit EvClose]"
  by (simp add: eval_defs truncated_download_def)

section \<open>Resume scan\<close>
















section \<open>Redirects\<close>

text \<open>
  Claim C8 (every response with a status in the 3xx class is followed to its \<open>location\<close>,
  or fails with an error naming the status when there is none). The resolver follows
  \<open>statusCode > 300 && statusCode < 400\<close>: a response with status 300 and a \<open>location\<close>
  header is not followed, and at the first address it fails with the error of a bad
  status.
\<close>

theorem C8_status_300_counterexample:
  "followRedirect' serve_300 ''http://h/f'' = Some (Inl (BadStatus 300))"
  by (simp add: eval_defs)

text \<open>
  Claim C8 for the statuses 301 to 399: a response with headers from an address not
  visited before is followed to its \<open>location\<close> and the loop goes on from there with the
  address marked as visited; without a \<open>location\<close>, or with an empty one, the resolver
  fails with the error that names the status.
\<close>

theorem C8_redirect_step:
  assumes "currentAddress \<notin> visited"
    and "server currentAddress = Reply code (Some h)"
    and "300 < status_or_500 code" "status_or_500 code < 400"
  shows "followRedirect_loop server address visited currentAddress =
     (case h ''location'' of
        None \<Rightarrow> Some (Inl (NoLocation (status_or_500 code)))
      | Some loc \<Rightarrow>
          if loc = [] then Some (Inl (NoLocation (status_or_500 code)))
          else followRedirect_loop server address (insert currentAddress visited) loc)"
  using assms
  by (subst followRedirect_loop.simps) (simp add: requestHeader_def split: option.split)

text \<open>The theorem at a 302 from \<open>http://h/f\<close> to \<open>http://h/g\<close>, which answers 200.\<close>

theorem C8_redirect_step_witness:
  "followRedirect' serve_302 ''http://h/f'' =
     followRedirect_loop serve_302 ''http://h/f'' {''http://h/f''} ''http://h/g''
   \<and> followRedirect' serve_302 ''http://h/f'' =
     Some (Inr (''http://h/g'', Some (range_headers ''1000'')))"
proof -
  have "followRedirect' serve_302 ''http://h/f'' =
        followRedirect_loop serve_302 ''http://h/f'' {''http://h/f''} ''http://h/g''"
    using C8_redirect_step [of "''http://h/f''" "{}" serve_302 "Some 302" location_g "''http://h/f''"]
    by (simp add: followRedirect'_def serve_302_def location_g_def)
  moreover have "followRedirect' serve_302 ''http://h/f'' =
     Some (Inr (''http://h/g'', Some (range_headers ''1000'')))"
    by (simp add: eval_defs)
  ultimately show ?thesis by simp
qed

section \<open>Files smaller than the number of connections\<close>




section \<open>Speed at zero elapsed time\<close>

lemma speed_zero_elapsed:
  "speed_of (Num b) (Num rb) (Num t) (Num t) =
     (if b = rb then NaN else if rb < b then PInf else NInf)"
  by (simp add: speed_of_def js_sub_def)

lemma same_ms_trace:
  "trace (run (host two_chunks) (fresh tmp_disk) same_ms) =
     [Get 1 (Some (Num 500, Num 999)), Get 0 (Some (Num 0, Num 499)),
      Emit (EvMetadata
        \<lparr>md_size = Num 1000, md_chunks = [Num 500, Num 500],
         md_isResume = False, md_progress = [Num 0, Num 0],
         md_finalAddress = ''http://h/f'', md_parallel = True,
         md_resumable = True, md_savedFilePath = Some ''/tmp/f''\<rparr>),
      Emit (EvProgress \<lparr>speed = Num 100000, bytes = Num 1000, percentage = Num 100\<rparr>
        [\<lparr>speed = Num 0, bytes = Num 500, percentage = Num 100\<rparr>,
         \<lparr>speed = Num 100000, bytes = Num 500, percentage = Num 100\<rparr>]),
      Emit (EvProgress \<lparr>speed = NaN, bytes = Num 1000, percentage = Num 100\<rparr>
        [\<lparr>speed = Num 125000, bytes = Num 500, percentage = Num 100\<rparr>,
         \<lparr>speed = Num 0, bytes = Num 500, percentage = Num 100\<rparr>]),
      Emit (EvBuild (Num 0))]"
  by (simp add: eval_defs same_ms_def)

text \<open>
  Claim C10 (the reporter divides by the elapsed time without a guard for zero, and in
  some executions a forced report happens in the millisecond of the reference snapshot,
  so that the speed in the \<open>progress\<close> payload is \<open>Infinity\<close> or \<open>NaN\<close>). A forced report
  at the time of the last snapshot emits a total speed of \<open>NaN\<close> when no byte has arrived
  since, of \<open>Infinity\<close> when more bytes have been counted, and of \<open>-Infinity\<close> when fewer.
  It happens: when the renames of two chunks call back in the same millisecond, the
  second \<open>progress\<close> event carries the total speed \<open>NaN\<close>.
\<close>

theorem C10_speed_not_finite:
  assumes "progress_listeners C" and "i < length (partsProgress st)"
    and "speedRef st = \<lparr>ref_bytes = Num rb, ref_time = Num t\<rparr>"
    and "bytes (totalProgress st) = Num b"
  shows "(\<exists>tp ps. trace (report C i True t0 (Num t) st) = trace st @ [Emit (EvProgress tp ps)]
            \<and> speed tp = (if b = rb then NaN else if rb < b then PInf else NInf)
            \<and> speed tp \<in> {PInf, NInf, NaN})
       \<and> (\<exists>ev. ev \<in> set (trace (run (host two_chunks) (fresh tmp_disk) same_ms))
            \<and> (case ev of Emit (EvProgress tp ps) \<Rightarrow> speed tp = NaN | _ \<Rightarrow> False))"
proof -
  have "trace (report C i True t0 (Num t) st) =
          trace st @ [Emit (EvProgress
             ((totalProgress st)\<lparr>speed := speed_of (Num b) (Num rb) (Num t) (Num t)\<rparr>)
             (partsProgress (report C i True t0 (Num t) st)))]"
    using assms by (simp add: report_def Let_def emit_def split: option.split)
  then have 1: "\<exists>tp ps. trace (report C i True t0 (Num t) st) = trace st @ [Emit (EvProgress tp ps)]
            \<and> speed tp = (if b = rb then NaN else if rb < b then PInf else NInf)
            \<and> speed tp \<in> {PInf, NInf, NaN}"
    by (simp add: speed_zero_elapsed)
  have "Emit (EvProgress \<lparr>speed = NaN, bytes = Num 1000, percentage = Num 100\<rparr>
        [\<lparr>speed = Num 125000, bytes = Num 500, percentage = Num 100\<rparr>,
         \<lparr>speed = Num 0, bytes = Num 500, percentage = Num 100\<rparr>])
        \<in> set (trace (run (host two_chunks) (fresh tmp_disk) same_ms))"
    by (simp add: same_ms_trace)
  moreover have "case Emit (EvProgress \<lparr>speed = NaN, bytes = Num 1000, percentage = Num 100\<rparr>
        [\<lparr>speed = Num 125000, bytes = Num 500, percentage = Num 100\<rparr>,
         \<lparr>speed = Num 0, bytes = Num 500, percentage = Num 100\<rparr>])
        of Emit (EvProgress tp ps) \<Rightarrow> speed tp = NaN | _ \<Rightarrow> False"
    by simp
  ultimately have 2: "\<exists>ev. ev \<in> set (trace (run (host two_chunks) (fresh tmp_disk) same_ms))
            \<and> (case ev of Emit (EvProgress tp ps) \<Rightarrow> speed tp = NaN | _ \<Rightarrow> False)"
    by blast
  from 1 2 show ?thesis by blast
qed

text \<open>The theorem at the second of those two reports.\<close>

theorem C10_speed_witness:
  "\<exists>tp ps.
     trace (report (host two_chunks) 0 True (Num 10) (Num 10)
              (run (host two_chunks) (fresh tmp_disk) (take 9 same_ms))) =
       trace (run (host two_chunks) (fresh tmp_disk) (take 9 same_ms))
         @ [Emit (EvProgress tp ps)]
     \<and> speed tp = NaN"
proof -
  let ?st = "run (host two_chunks) (fresh tmp_disk) (take 9 same_ms)"
  have h: "progress_listeners (host two_chunks)" "0 < length (partsProgress ?st)"
    "speedRef ?st = \<lparr>ref_bytes = Num 1000, ref_time = Num 10\<rparr>"
    "bytes (totalProgress ?st) = Num 1000"
    by (simp_all add: eval_defs same_ms_def)
  from C10_speed_not_finite [OF h, of "Num 10"]
  show ?thesis by auto
qed

end
